theory Spec2Isabelle
  imports Complex_Main "HOL-Library.Word" "HOL-Library.Signed_Division"
begin

unbundle bit_operations_syntax

section \<open>Errors, panics and results\<close>

text \<open>
  The package \<open>ssl\<close> reports failures as plain Go \<open>error\<close> values built with
  \<open>errors.New\<close> and \<open>fmt.Errorf\<close>, or passes on the error of a library call.
  Each error the package creates itself is one constructor; \<open>LibraryError\<close> is an
  error value handed back by a library (yaml, crypto, x509).
\<close>

datatype error =
    UnknownKeyType string
  | InvalidECDSAKeySize int
  | InvalidRSAKeySize int int int
  | NoSubjectInformation
  | NoKeyUsage
  | CannotParsePrivateKey
  | UnknownPrivateKeyType
  | LibraryError string

text \<open>
  A call either returns an error, or panics: \<open>log.Panic().Msg m\<close> of zerolog is
  \<open>LogPanic m\<close>, \<open>log.Panic().Msgf m n\<close> is \<open>LogPanicf m n\<close>, and reading a
  field through a nil pointer is the run-time panic \<open>NilDereference\<close>.
\<close>

datatype panic = LogPanic string | LogPanicf string int | NilDereference

datatype failure = Err error | Panic panic

type_synonym 'a result = "failure + 'a"

type_synonym bytes = "8 word list"

section \<open>Key algorithm policy\<close>

text \<open>\<open>type KeyAlgorithm int\<close> with the constants given by \<open>iota\<close>.\<close>

type_synonym KeyAlgorithm = int

definition keyAlgorithmNotSet :: KeyAlgorithm where "keyAlgorithmNotSet = 0"
definition ECDSAKey :: KeyAlgorithm where "ECDSAKey = 1"
definition RSAKey :: KeyAlgorithm where "RSAKey = 2"

definition minRSAKeySize :: int where "minRSAKeySize = 2048"
definition maxRSAKeySize :: int where "maxRSAKeySize = 8192"

definition ParseKeyAlgorithm :: "string \<Rightarrow> KeyAlgorithm result" where
  "ParseKeyAlgorithm inp =
     (if inp = ''ecdsa'' then Inr ECDSAKey
      else if inp = ''rsa'' then Inr RSAKey
      else Inl (Err (UnknownKeyType inp)))"

definition DefaultSize :: "KeyAlgorithm \<Rightarrow> int result" where
  "DefaultSize a =
     (if a = ECDSAKey then Inr 256
      else if a = RSAKey then Inr 4096
      else Inl (Panic (LogPanic ''unexpected key algorithm'')))"

text \<open>\<open>ValidKeySize\<close> returns \<open>nil\<close> (here \<open>Inr ()\<close>), an error, or panics.\<close>

definition ValidKeySize :: "KeyAlgorithm \<Rightarrow> int \<Rightarrow> unit result" where
  "ValidKeySize a sz =
     (if a = ECDSAKey then
        (if \<not> (sz = 0 \<or> sz = 256 \<or> sz = 384 \<or> sz = 521)
         then Inl (Err (InvalidECDSAKeySize sz))
         else Inr ())
      else if a = RSAKey then
        (if \<not> (sz = 0 \<or> (sz \<ge> minRSAKeySize \<and> sz \<le> maxRSAKeySize))
         then Inl (Err (InvalidRSAKeySize sz minRSAKeySize maxRSAKeySize))
         else Inr ())
      else Inl (Panic (LogPanic ''unexpected key algorithm'')))"

definition validateKey :: "string \<Rightarrow> int \<Rightarrow> unit result" where
  "validateKey alg sz =
     (case ParseKeyAlgorithm alg of
        Inl e \<Rightarrow> Inl e
      | Inr a \<Rightarrow> (case ValidKeySize a sz of Inl e \<Rightarrow> Inl e | Inr _ \<Rightarrow> Inr ()))"

section \<open>Keys\<close>

text \<open>
  The key material of the Go standard library, as far as the package reads it:
  the named curve of an ECDSA key and the modulus of an RSA key. As in Go, a
  private key embeds its public key.
\<close>

datatype Curve = P224 | P256 | P384 | P521 | OtherCurve nat

record ecdsa_PublicKey =
  ec_Curve :: Curve
  ec_X :: nat
  ec_Y :: nat

record ecdsa_PrivateKey = ecdsa_PublicKey +
  ec_D :: nat

record rsa_PublicKey =
  rsa_N :: nat
  rsa_E :: int

record rsa_PrivateKey = rsa_PublicKey +
  rsa_D :: nat

text \<open>
  \<open>crypto.PrivateKey\<close> and \<open>crypto.PublicKey\<close> are empty interfaces; the package
  switches on the dynamic type. \<open>OtherPrivateKey\<close> is any other key type that
  \<open>x509.ParsePKCS8PrivateKey\<close> can return (Ed25519, ECDH).
\<close>

datatype PrivateKey_any =
    ECDSAPriv ecdsa_PrivateKey
  | RSAPriv rsa_PrivateKey
  | OtherPrivateKey

datatype PublicKey_any =
    ECDSAPub ecdsa_PublicKey
  | RSAPub rsa_PublicKey

datatype x509_PublicKeyAlgorithm = x509_RSA | x509_ECDSA

datatype x509_SignatureAlgorithm =
    ECDSAWithSHA256 | ECDSAWithSHA384 | ECDSAWithSHA512
  | SHA256WithRSA | SHA384WithRSA | SHA512WithRSA

record baseKey =
  algorithm :: KeyAlgorithm
  ksize :: int
  encoded :: bytes
  privateKey :: PrivateKey_any

text \<open>The interface \<open>Key\<close> has the two implementations \<open>ecdsaKey\<close> and \<open>rsaKey\<close>.\<close>

datatype Key = ecdsaKey baseKey | rsaKey baseKey

fun base :: "Key \<Rightarrow> baseKey" where
  "base (ecdsaKey b) = b"
| "base (rsaKey b) = b"

definition Algorithm :: "Key \<Rightarrow> KeyAlgorithm" where
  "Algorithm k = algorithm (base k)"

definition Size :: "Key \<Rightarrow> int" where
  "Size k = ksize (base k)"

definition Encoded :: "Key \<Rightarrow> bytes" where
  "Encoded k = encoded (base k)"

definition PrivateKey :: "Key \<Rightarrow> PrivateKey_any" where
  "PrivateKey k = privateKey (base k)"

definition PublicKey :: "Key \<Rightarrow> PublicKey_any result" where
  "PublicKey k =
     (case privateKey (base k) of
        ECDSAPriv p \<Rightarrow> Inr (ECDSAPub (ecdsa_PublicKey.truncate p))
      | RSAPriv p \<Rightarrow> Inr (RSAPub (rsa_PublicKey.truncate p))
      | OtherPrivateKey \<Rightarrow> Inl (Panic (LogPanic ''unexpected key algorithm'')))"

fun PublicKeyAlgorithm :: "Key \<Rightarrow> x509_PublicKeyAlgorithm" where
  "PublicKeyAlgorithm (ecdsaKey b) = x509_ECDSA"
| "PublicKeyAlgorithm (rsaKey b) = x509_RSA"

fun SignatureAlgorithm :: "Key \<Rightarrow> x509_SignatureAlgorithm result" where
  "SignatureAlgorithm (ecdsaKey b) =
     (if ksize b = 256 then Inr ECDSAWithSHA256
      else if ksize b = 384 then Inr ECDSAWithSHA384
      else if ksize b = 521 then Inr ECDSAWithSHA512
      else Inl (Panic (LogPanic ''unexpected key size'')))"
| "SignatureAlgorithm (rsaKey b) =
     (if ksize b \<ge> 4096 then Inr SHA512WithRSA
      else if ksize b \<ge> 3072 then Inr SHA384WithRSA
      else if ksize b \<ge> 2048 then Inr SHA256WithRSA
      else Inl (Panic (LogPanic ''unexpected key size'')))"

section \<open>Requests, names, hosts and certificates\<close>

record CertificateName =
  cn_C :: string
  cn_ST :: string
  cn_L :: string
  cn_O :: string
  cn_OU :: string
  cn_SerialNumber :: string

record CertificateRequest =
  csr_Algorithm :: string
  csr_Size :: int
  csr_CommonName :: string
  csr_Names :: "CertificateName list"
  csr_Hosts :: "string list"
  csr_SerialNumber :: string

text \<open>\<open>pkix.Name\<close>: the fields that \<open>subject\<close> writes.\<close>

record pkix_Name =
  Country :: "string list"
  Organization :: "string list"
  OrganizationalUnit :: "string list"
  Locality :: "string list"
  Province :: "string list"
  SerialNumber :: string
  CommonName :: string

type_synonym IP = bytes

record mail_Address =
  addr_Name :: string
  addr_Address :: string

record URL =
  url_Scheme :: string
  url_Host :: string
  url_Path :: string

record certificateHosts =
  DNSNames :: "string list"
  EmailAddresses :: "string list"
  IPAddresses :: "IP list"
  URIs :: "URL list"

text \<open>
  \<open>time.Duration\<close> counts nanoseconds. A \<open>time.Time\<close> is an instant, here in
  nanoseconds since the Unix epoch, and the location it is shown in; \<open>Add\<close> moves
  the instant and \<open>UTC\<close> sets the location.
\<close>

type_synonym Duration = int

definition Nanosecond :: Duration where "Nanosecond = 1"
definition Microsecond :: Duration where "Microsecond = 1000 * Nanosecond"
definition Millisecond :: Duration where "Millisecond = 1000 * Microsecond"
definition Second :: Duration where "Second = 1000 * Millisecond"
definition Minute :: Duration where "Minute = 60 * Second"
definition Hour :: Duration where "Hour = 60 * Minute"

text \<open>
  \<open>Duration.Seconds\<close>: \<open>sec := d / Second; nsec := d % Second;
  return float64(sec) + float64(nsec)/1e9\<close>, with Go's truncating division.
  The package only compares the result with zero. Both summands have the sign of
  \<open>d\<close>, the first is an integer below \<open>2 ^ 53\<close> and the second is nonzero as a
  float whenever \<open>nsec\<close> is, so the comparison is the same over the reals.
\<close>

definition Seconds :: "Duration \<Rightarrow> real" where
  "Seconds d = real_of_int (d sdiv Second) + real_of_int (d smod Second) / 1000000000"

datatype Location = UTC_Location | Local_Location

record Time =
  unixNano :: int
  location :: Location

definition Time_Add :: "Time \<Rightarrow> Duration \<Rightarrow> Time" where
  "Time_Add t d = t\<lparr>unixNano := unixNano t + d\<rparr>"

definition Time_UTC :: "Time \<Rightarrow> Time" where
  "Time_UTC t = t\<lparr>location := UTC_Location\<rparr>"

text \<open>\<open>x509.KeyUsage\<close> is a bit set in an \<open>int\<close>, \<open>1 << iota\<close>.\<close>

type_synonym x509_KeyUsage = int

definition KeyUsageDigitalSignature :: x509_KeyUsage where "KeyUsageDigitalSignature = 1"
definition KeyUsageContentCommitment :: x509_KeyUsage where "KeyUsageContentCommitment = 2"
definition KeyUsageKeyEncipherment :: x509_KeyUsage where "KeyUsageKeyEncipherment = 4"
definition KeyUsageDataEncipherment :: x509_KeyUsage where "KeyUsageDataEncipherment = 8"
definition KeyUsageKeyAgreement :: x509_KeyUsage where "KeyUsageKeyAgreement = 16"
definition KeyUsageCertSign :: x509_KeyUsage where "KeyUsageCertSign = 32"
definition KeyUsageCRLSign :: x509_KeyUsage where "KeyUsageCRLSign = 64"
definition KeyUsageEncipherOnly :: x509_KeyUsage where "KeyUsageEncipherOnly = 128"
definition KeyUsageDecipherOnly :: x509_KeyUsage where "KeyUsageDecipherOnly = 256"

datatype x509_ExtKeyUsage =
    ExtKeyUsageAny
  | ExtKeyUsageServerAuth
  | ExtKeyUsageClientAuth
  | ExtKeyUsageCodeSigning
  | ExtKeyUsageEmailProtection
  | ExtKeyUsageIPSECEndSystem
  | ExtKeyUsageIPSECTunnel
  | ExtKeyUsageIPSECUser
  | ExtKeyUsageTimeStamping
  | ExtKeyUsageOCSPSigning
  | ExtKeyUsageMicrosoftServerGatedCrypto
  | ExtKeyUsageNetscapeServerGatedCrypto

text \<open>\<open>x509.Certificate\<close>: the fields that the template sets.\<close>

record Certificate =
  crt_Subject :: pkix_Name
  crt_PublicKey :: PublicKey_any
  crt_PublicKeyAlgorithm :: x509_PublicKeyAlgorithm
  crt_SignatureAlgorithm :: x509_SignatureAlgorithm
  crt_IPAddresses :: "IP list"
  crt_EmailAddresses :: "string list"
  crt_URIs :: "URL list"
  crt_DNSNames :: "string list"
  crt_SerialNumber :: int
  crt_NotBefore :: Time
  crt_NotAfter :: Time
  crt_KeyUsage :: x509_KeyUsage
  crt_ExtKeyUsage :: "x509_ExtKeyUsage list"
  crt_BasicConstraintsValid :: bool
  crt_IsCA :: bool

record pem_Block =
  blk_Type :: string
  blk_Bytes :: bytes

section \<open>The libraries the package calls\<close>

text \<open>
  The Go standard library and yaml.v2 are not part of the package; every function
  of theirs that the package calls is a field of this record, and every theorem
  holds for any value of it. A function that reads \<open>rand.Reader\<close> or the clock
  takes the state of the world \<open>'w\<close> and returns the next one. A library call
  that returns \<open>(value, error)\<close> returns a sum, with the error's message on the
  left; the package passes such an error on unchanged, here as \<open>LibraryError\<close>
  of the message. A call that returns a nil pointer for "not found" returns an
  option. The three host parsers return options too: \<open>Some\<close> stands for a nil
  error with a non-nil result, which is all that \<open>parseHosts\<close> tests.
\<close>

type_synonym lib_error = string

record 'w stdlib =
  strings_TrimSpace :: "string \<Rightarrow> string"
  yaml_Unmarshal :: "bytes \<Rightarrow> lib_error + CertificateRequest"
  net_ParseIP :: "string \<Rightarrow> IP option"
  mail_ParseAddress :: "string \<Rightarrow> mail_Address option"
  url_ParseRequestURI :: "string \<Rightarrow> URL option"
  rand_Int :: "int \<Rightarrow> 'w \<Rightarrow> (lib_error + int) \<times> 'w"
  ecdsa_GenerateKey :: "Curve \<Rightarrow> 'w \<Rightarrow> (lib_error + ecdsa_PrivateKey) \<times> 'w"
  rsa_GenerateKey :: "int \<Rightarrow> 'w \<Rightarrow> (lib_error + rsa_PrivateKey) \<times> 'w"
  x509_MarshalECPrivateKey :: "ecdsa_PrivateKey \<Rightarrow> lib_error + bytes"
  x509_MarshalPKCS1PrivateKey :: "rsa_PrivateKey \<Rightarrow> bytes"
  pem_EncodeToMemory :: "pem_Block \<Rightarrow> bytes"
  pem_Decode :: "bytes \<Rightarrow> pem_Block option"
  x509_ParsePKCS8PrivateKey :: "bytes \<Rightarrow> lib_error + PrivateKey_any"
  x509_ParsePKCS1PrivateKey :: "bytes \<Rightarrow> lib_error + rsa_PrivateKey"
  x509_ParseECPrivateKey :: "bytes \<Rightarrow> lib_error + ecdsa_PrivateKey"
  x509_ParseCertificate :: "bytes \<Rightarrow> lib_error + Certificate"
  x509_CreateCertificate ::
    "Certificate \<Rightarrow> Certificate \<Rightarrow> PublicKey_any \<Rightarrow> PrivateKey_any \<Rightarrow> 'w \<Rightarrow> (lib_error + bytes) \<times> 'w"
  time_Now :: "'w \<Rightarrow> Time \<times> 'w"

section \<open>Key generation\<close>

definition generateECDSAKey :: "'w stdlib \<Rightarrow> int \<Rightarrow> 'w \<Rightarrow> Key result \<times> 'w" where
  "generateECDSAKey lib sz0 w =
     (case (if sz0 = 0 then DefaultSize ECDSAKey else Inr sz0) of
        Inl f \<Rightarrow> (Inl f, w)
      | Inr sz \<Rightarrow>
         (case (if sz = 256 then Some P256
                else if sz = 384 then Some P384
                else if sz = 521 then Some P521
                else None) of
            None \<Rightarrow> (Inl (Panic (LogPanicf ''unexpected key size %d'' sz)), w)
          | Some curve \<Rightarrow>
             (case ecdsa_GenerateKey lib curve w of
                (Inl e, w') \<Rightarrow> (Inl (Err (LibraryError e)), w')
              | (Inr key, w') \<Rightarrow>
                 (case x509_MarshalECPrivateKey lib key of
                    Inl e \<Rightarrow> (Inl (Err (LibraryError e)), w')
                  | Inr der \<Rightarrow>
                     (Inr (ecdsaKey
                        \<lparr>algorithm = ECDSAKey, ksize = sz,
                         encoded = pem_EncodeToMemory lib
                           \<lparr>blk_Type = ''EC PRIVATE KEY'', blk_Bytes = der\<rparr>,
                         privateKey = ECDSAPriv key\<rparr>), w')))))"

definition generateRSAKey :: "'w stdlib \<Rightarrow> int \<Rightarrow> 'w \<Rightarrow> Key result \<times> 'w" where
  "generateRSAKey lib sz0 w =
     (case (if sz0 = 0 then DefaultSize RSAKey else Inr sz0) of
        Inl f \<Rightarrow> (Inl f, w)
      | Inr sz \<Rightarrow>
         (case rsa_GenerateKey lib sz w of
            (Inl e, w') \<Rightarrow> (Inl (Err (LibraryError e)), w')
          | (Inr key, w') \<Rightarrow>
             (Inr (rsaKey
                \<lparr>algorithm = RSAKey, ksize = sz,
                 encoded = pem_EncodeToMemory lib
                   \<lparr>blk_Type = ''RSA PRIVATE KEY'',
                    blk_Bytes = x509_MarshalPKCS1PrivateKey lib key\<rparr>,
                 privateKey = RSAPriv key\<rparr>), w')))"

definition GenerateKey :: "'w stdlib \<Rightarrow> KeyAlgorithm \<Rightarrow> int \<Rightarrow> 'w \<Rightarrow> Key result \<times> 'w" where
  "GenerateKey lib a sz w =
     (case ValidKeySize a sz of
        Inl f \<Rightarrow> (Inl f, w)
      | Inr _ \<Rightarrow>
         (if a = ECDSAKey then generateECDSAKey lib sz w
          else if a = RSAKey then generateRSAKey lib sz w
          else (Inl (Panic (LogPanic ''unexpected key algorithm'')), w)))"

section \<open>Parsing a certificate request\<close>

definition trim :: "'w stdlib \<Rightarrow> CertificateName \<Rightarrow> CertificateName" where
  "trim lib n =
     \<lparr>cn_C = strings_TrimSpace lib (cn_C n),
      cn_ST = strings_TrimSpace lib (cn_ST n),
      cn_L = strings_TrimSpace lib (cn_L n),
      cn_O = strings_TrimSpace lib (cn_O n),
      cn_OU = strings_TrimSpace lib (cn_OU n),
      cn_SerialNumber = strings_TrimSpace lib (cn_SerialNumber n)\<rparr>"

definition Empty :: "CertificateName \<Rightarrow> bool" where
  "Empty n \<longleftrightarrow>
     length (cn_C n) + length (cn_ST n) + length (cn_L n) + length (cn_O n) + length (cn_OU n) = 0"

text \<open>
  The loop \<open>for i := range csr.Names\<close> of \<open>ParseCertificateRequest\<close>: it trims
  each entry, skips the empty ones and appends the others to \<open>names\<close>.
\<close>

fun collectNames ::
  "'w stdlib \<Rightarrow> CertificateName list \<Rightarrow> CertificateName list \<Rightarrow> CertificateName list" where
  "collectNames lib [] names = names"
| "collectNames lib (n # rest) names =
     (let n' = trim lib n
      in if Empty n' then collectNames lib rest names
         else collectNames lib rest (names @ [n']))"

text \<open>The loop \<open>for i := range csr.Hosts\<close>: it trims each host in place.\<close>

fun trimHosts :: "'w stdlib \<Rightarrow> string list \<Rightarrow> string list" where
  "trimHosts lib [] = []"
| "trimHosts lib (h # rest) = strings_TrimSpace lib h # trimHosts lib rest"

definition ParseCertificateRequest :: "'w stdlib \<Rightarrow> bytes \<Rightarrow> CertificateRequest result" where
  "ParseCertificateRequest lib inp =
     (case yaml_Unmarshal lib inp of
        Inl e \<Rightarrow> Inl (Err (LibraryError e))
      | Inr csr \<Rightarrow>
         (case validateKey (csr_Algorithm csr) (csr_Size csr) of
            Inl f \<Rightarrow> Inl f
          | Inr _ \<Rightarrow>
             (let csr1 = csr\<lparr>csr_CommonName := strings_TrimSpace lib (csr_CommonName csr)\<rparr>;
                  csr2 = csr1\<lparr>csr_SerialNumber := strings_TrimSpace lib (csr_SerialNumber csr1)\<rparr>;
                  csr3 = csr2\<lparr>csr_Names := collectNames lib (csr_Names csr2) []\<rparr>;
                  csr4 = csr3\<lparr>csr_Hosts := trimHosts lib (csr_Hosts csr3)\<rparr>
              in if csr_CommonName csr4 = [] \<and> length (csr_Names csr4) = 0
                 then Inl (Err NoSubjectInformation)
                 else Inr csr4)))"

section \<open>The subject of a request\<close>

text \<open>
  One round of the loop of \<open>subject\<close>, field by field as the source has it. The
  third test appends \<open>n.L\<close> to \<open>subject.Locality\<close> and stores the result in
  \<open>subject.Province\<close>.
\<close>

definition subject_step :: "pkix_Name \<Rightarrow> CertificateName \<Rightarrow> pkix_Name" where
  "subject_step s0 n =
     (let s1 = (if length (cn_C n) > 0 then s0\<lparr>Country := Country s0 @ [cn_C n]\<rparr> else s0);
          s2 = (if length (cn_ST n) > 0 then s1\<lparr>Province := Province s1 @ [cn_ST n]\<rparr> else s1);
          s3 = (if length (cn_L n) > 0 then s2\<lparr>Province := Locality s2 @ [cn_L n]\<rparr> else s2);
          s4 = (if length (cn_O n) > 0 then s3\<lparr>Organization := Organization s3 @ [cn_O n]\<rparr> else s3);
          s5 = (if length (cn_OU n) > 0
                then s4\<lparr>OrganizationalUnit := OrganizationalUnit s4 @ [cn_OU n]\<rparr> else s4)
      in s5)"

fun subject_loop :: "pkix_Name \<Rightarrow> CertificateName list \<Rightarrow> pkix_Name" where
  "subject_loop s [] = s"
| "subject_loop s (n # rest) = subject_loop (subject_step s n) rest"

definition empty_Name :: pkix_Name where
  "empty_Name =
     \<lparr>Country = [], Organization = [], OrganizationalUnit = [], Locality = [],
      Province = [], SerialNumber = [], CommonName = []\<rparr>"

definition subject :: "CertificateRequest \<Rightarrow> pkix_Name" where
  "subject csr =
     (let s = empty_Name\<lparr>CommonName := csr_CommonName csr\<rparr>;
          s' = subject_loop s (csr_Names csr)
      in s'\<lparr>SerialNumber := csr_SerialNumber csr\<rparr>)"

section \<open>Classifying hosts\<close>

definition parseHosts_step :: "'w stdlib \<Rightarrow> certificateHosts \<Rightarrow> string \<Rightarrow> certificateHosts" where
  "parseHosts_step lib out host =
     (case net_ParseIP lib host of
        Some ip \<Rightarrow> out\<lparr>IPAddresses := IPAddresses out @ [ip]\<rparr>
      | None \<Rightarrow>
         (case mail_ParseAddress lib host of
            Some email \<Rightarrow> out\<lparr>EmailAddresses := EmailAddresses out @ [addr_Address email]\<rparr>
          | None \<Rightarrow>
             (case url_ParseRequestURI lib host of
                Some uri \<Rightarrow> out\<lparr>URIs := URIs out @ [uri]\<rparr>
              | None \<Rightarrow> out\<lparr>DNSNames := DNSNames out @ [host]\<rparr>)))"

fun parseHosts_loop :: "'w stdlib \<Rightarrow> certificateHosts \<Rightarrow> string list \<Rightarrow> certificateHosts" where
  "parseHosts_loop lib out [] = out"
| "parseHosts_loop lib out (host # rest) = parseHosts_loop lib (parseHosts_step lib out host) rest"

definition parseHosts :: "'w stdlib \<Rightarrow> CertificateRequest \<Rightarrow> certificateHosts" where
  "parseHosts lib csr =
     parseHosts_loop lib
       \<lparr>DNSNames = [], EmailAddresses = [], IPAddresses = [], URIs = []\<rparr> (csr_Hosts csr)"

section \<open>Usages\<close>

definition keyUsage :: "string \<rightharpoonup> x509_KeyUsage" where
  "keyUsage = map_of
     [(''signing'', KeyUsageDigitalSignature),
      (''digital signature'', KeyUsageDigitalSignature),
      (''content commitment'', KeyUsageContentCommitment),
      (''key encipherment'', KeyUsageKeyEncipherment),
      (''key agreement'', KeyUsageKeyAgreement),
      (''data encipherment'', KeyUsageDataEncipherment),
      (''cert sign'', KeyUsageCertSign),
      (''crl sign'', KeyUsageCRLSign),
      (''encipher only'', KeyUsageEncipherOnly),
      (''decipher only'', KeyUsageDecipherOnly)]"

definition extKeyUsage :: "string \<rightharpoonup> x509_ExtKeyUsage" where
  "extKeyUsage = map_of
     [(''any'', ExtKeyUsageAny),
      (''server auth'', ExtKeyUsageServerAuth),
      (''client auth'', ExtKeyUsageClientAuth),
      (''code signing'', ExtKeyUsageCodeSigning),
      (''email protection'', ExtKeyUsageEmailProtection),
      (''s/mime'', ExtKeyUsageEmailProtection),
      (''ipsec end system'', ExtKeyUsageIPSECEndSystem),
      (''ipsec tunnel'', ExtKeyUsageIPSECTunnel),
      (''ipsec user'', ExtKeyUsageIPSECUser),
      (''timestamping'', ExtKeyUsageTimeStamping),
      (''ocsp signing'', ExtKeyUsageOCSPSigning),
      (''microsoft sgc'', ExtKeyUsageMicrosoftServerGatedCrypto),
      (''netscape sgc'', ExtKeyUsageNetscapeServerGatedCrypto)]"

fun sortUsages_loop ::
  "x509_KeyUsage \<times> x509_ExtKeyUsage list \<Rightarrow> string list \<Rightarrow> x509_KeyUsage \<times> x509_ExtKeyUsage list" where
  "sortUsages_loop acc [] = acc"
| "sortUsages_loop (ku, eku) (u # rest) =
     (case keyUsage u of
        Some kuse \<Rightarrow> sortUsages_loop (ku OR kuse, eku) rest
      | None \<Rightarrow>
         (case extKeyUsage u of
            Some ekuse \<Rightarrow> sortUsages_loop (ku, eku @ [ekuse]) rest
          | None \<Rightarrow> sortUsages_loop (ku, eku) rest))"

definition sortUsages :: "string list \<Rightarrow> x509_KeyUsage \<times> x509_ExtKeyUsage list" where
  "sortUsages usages = sortUsages_loop (0, []) usages"

section \<open>Certificate templates\<close>

definition DefaultCertificateExpiration :: Duration where
  "DefaultCertificateExpiration = 10 * 8760 * Hour"

definition MaxInt64 :: int where
  "MaxInt64 = 2 ^ 63 - 1"

definition generateKey :: "'w stdlib \<Rightarrow> CertificateRequest \<Rightarrow> 'w \<Rightarrow> Key result \<times> 'w" where
  "generateKey lib csr w =
     (case ParseKeyAlgorithm (csr_Algorithm csr) of
        Inl f \<Rightarrow> (Inl f, w)
      | Inr a \<Rightarrow> GenerateKey lib a (csr_Size csr) w)"

text \<open>
  The composite literal that \<open>generateCertificateTemplate\<close> returns. Go evaluates
  the method calls in it from left to right, so a panic of \<open>PublicKey\<close> comes
  before one of \<open>SignatureAlgorithm\<close>.
\<close>

definition buildTemplate ::
  "CertificateRequest \<Rightarrow> Key \<Rightarrow> certificateHosts \<Rightarrow> int \<Rightarrow> Time \<Rightarrow> Duration \<Rightarrow>
   x509_KeyUsage \<Rightarrow> x509_ExtKeyUsage list \<Rightarrow> bool \<Rightarrow> Certificate result" where
  "buildTemplate csr key hosts serialNumber now expires ku eku isCA =
     (case PublicKey key of
        Inl f \<Rightarrow> Inl f
      | Inr pub \<Rightarrow>
         (case SignatureAlgorithm key of
            Inl f \<Rightarrow> Inl f
          | Inr sig \<Rightarrow>
             Inr \<lparr>crt_Subject = subject csr,
                  crt_PublicKey = pub,
                  crt_PublicKeyAlgorithm = PublicKeyAlgorithm key,
                  crt_SignatureAlgorithm = sig,
                  crt_IPAddresses = IPAddresses hosts,
                  crt_EmailAddresses = EmailAddresses hosts,
                  crt_URIs = URIs hosts,
                  crt_DNSNames = DNSNames hosts,
                  crt_SerialNumber = serialNumber,
                  crt_NotBefore = Time_UTC (Time_Add now (- 5 * Minute)),
                  crt_NotAfter = Time_UTC (Time_Add now expires),
                  crt_KeyUsage = ku,
                  crt_ExtKeyUsage = eku,
                  crt_BasicConstraintsValid = True,
                  crt_IsCA = isCA\<rparr>))"

definition generateCertificateTemplate ::
  "'w stdlib \<Rightarrow> bytes \<Rightarrow> Duration \<Rightarrow> string list \<Rightarrow> bool \<Rightarrow> 'w \<Rightarrow> (Certificate \<times> Key) result \<times> 'w" where
  "generateCertificateTemplate lib csrData expires0 usage isCA w =
     (case ParseCertificateRequest lib csrData of
        Inl f \<Rightarrow> (Inl f, w)
      | Inr csr \<Rightarrow>
         (let expires = (if Seconds expires0 = 0 then DefaultCertificateExpiration else expires0)
          in case rand_Int lib MaxInt64 w of
               (Inl e, w1) \<Rightarrow> (Inl (Err (LibraryError e)), w1)
             | (Inr serialNumber, w1) \<Rightarrow>
                (case generateKey lib csr w1 of
                   (Inl f, w2) \<Rightarrow> (Inl f, w2)
                 | (Inr key, w2) \<Rightarrow>
                    (let hosts = parseHosts lib csr;
                         (ku, eku) = sortUsages usage
                     in if ku = 0 \<and> length eku = 0 then (Inl (Err NoKeyUsage), w2)
                        else (case time_Now lib w2 of
                                (now, w3) \<Rightarrow>
                                  (case buildTemplate csr key hosts serialNumber now expires ku eku isCA of
                                     Inl f \<Rightarrow> (Inl f, w3)
                                   | Inr template \<Rightarrow> (Inr (template, key), w3)))))))"

section \<open>Issuing certificates\<close>


section \<open>Loading a private key\<close>

text \<open>\<open>big.Int.BitLen\<close>: the number of bits of the absolute value, 0 for 0.\<close>

fun BitLen :: "nat \<Rightarrow> nat" where
  "BitLen n = (if n = 0 then 0 else Suc (BitLen (n div 2)))"

declare BitLen.simps [simp del]

text \<open>
  \<open>rsa.PublicKey.Size\<close>, promoted to \<open>*rsa.PrivateKey\<close>: the modulus size in
  bytes, \<open>(pub.N.BitLen() + 7) / 8\<close>.
\<close>

definition rsa_Size :: "rsa_PrivateKey \<Rightarrow> int" where
  "rsa_Size priv = (int (BitLen (rsa_N priv)) + 7) div 8"

definition getCurveSize :: "Curve \<Rightarrow> int result" where
  "getCurveSize c =
     (if c = P256 then Inr 256
      else if c = P384 then Inr 384
      else if c = P521 then Inr 521
      else DefaultSize ECDSAKey)"

text \<open>
  The three attempts of \<open>parsePrivateKey\<close>: PKCS#8, then PKCS#1, then SEC1; the
  first one that returns no error gives the key.
\<close>

definition parseKeyDER :: "'w stdlib \<Rightarrow> bytes \<Rightarrow> PrivateKey_any result" where
  "parseKeyDER lib keyDER =
     (case x509_ParsePKCS8PrivateKey lib keyDER of
        Inr key \<Rightarrow> Inr key
      | Inl _ \<Rightarrow>
         (case x509_ParsePKCS1PrivateKey lib keyDER of
            Inr key \<Rightarrow> Inr (RSAPriv key)
          | Inl _ \<Rightarrow>
             (case x509_ParseECPrivateKey lib keyDER of
                Inr key \<Rightarrow> Inr (ECDSAPriv key)
              | Inl _ \<Rightarrow> Inl (Err CannotParsePrivateKey))))"

definition parsePrivateKey :: "'w stdlib \<Rightarrow> bytes \<Rightarrow> Key result" where
  "parsePrivateKey lib keyPEM =
     (case pem_Decode lib keyPEM of
        None \<Rightarrow> Inl (Panic NilDereference)
      | Some p \<Rightarrow>
         (case parseKeyDER lib (blk_Bytes p) of
            Inl f \<Rightarrow> Inl f
          | Inr (RSAPriv priv) \<Rightarrow>
              Inr (rsaKey \<lparr>algorithm = RSAKey, ksize = rsa_Size priv,
                           encoded = keyPEM, privateKey = RSAPriv priv\<rparr>)
          | Inr (ECDSAPriv priv) \<Rightarrow>
              (case getCurveSize (ec_Curve priv) of
                 Inl f \<Rightarrow> Inl f
               | Inr sz \<Rightarrow>
                   Inr (ecdsaKey \<lparr>algorithm = ECDSAKey, ksize = sz,
                                  encoded = keyPEM, privateKey = ECDSAPriv priv\<rparr>))
          | Inr OtherPrivateKey \<Rightarrow> Inl (Err UnknownPrivateKeyType)))"

definition Generate ::
  "'w stdlib \<Rightarrow> bytes \<Rightarrow> bytes \<Rightarrow> bytes \<Rightarrow> Duration \<Rightarrow> string list \<Rightarrow> 'w \<Rightarrow> (bytes \<times> bytes) result \<times> 'w" where
  "Generate lib csrData ca caKey expires usage w =
     (case generateCertificateTemplate lib csrData expires usage False w of
        (Inl f, w1) \<Rightarrow> (Inl f, w1)
      | (Inr (template, key), w1) \<Rightarrow>
         (case pem_Decode lib ca of
            None \<Rightarrow> (Inl (Panic NilDereference), w1)
          | Some p \<Rightarrow>
             (case x509_ParseCertificate lib (blk_Bytes p) of
                Inl e \<Rightarrow> (Inl (Err (LibraryError e)), w1)
              | Inr caCert \<Rightarrow>
                 (case parsePrivateKey lib caKey of
                    Inl f \<Rightarrow> (Inl f, w1)
                  | Inr caPrivateKey \<Rightarrow>
                     (case PublicKey key of
                        Inl f \<Rightarrow> (Inl f, w1)
                      | Inr pub \<Rightarrow>
                         (case x509_CreateCertificate lib template caCert pub
                                 (PrivateKey caPrivateKey) w1 of
                            (Inl e, w2) \<Rightarrow> (Inl (Err (LibraryError e)), w2)
                          | (Inr cert, w2) \<Rightarrow>
                             (Inr (pem_EncodeToMemory lib
                                     \<lparr>blk_Type = ''CERTIFICATE'', blk_Bytes = cert\<rparr>,
                                   Encoded key), w2)))))))"

section \<open>A sample library\<close>

text \<open>
  One value of the library record, used only to run the package on concrete
  inputs. The world is a counter of the reads of the random source. The YAML
  decoder yields the request it is given for any non-empty input; the host
  parsers know the four hosts of the package's test; \<open>pem.Decode\<close> finds no
  block in the empty input; the PKCS#8 parser knows three one-byte encodings.
\<close>

definition asciiSpace :: "char \<Rightarrow> bool" where
  "asciiSpace c \<longleftrightarrow>
     c = CHR 0x09 \<or> c = CHR 0x0A \<or> c = CHR 0x0B \<or> c = CHR 0x0C \<or> c = CHR 0x0D \<or> c = CHR '' ''"

definition sample_TrimSpace :: "string \<Rightarrow> string" where
  "sample_TrimSpace s = rev (dropWhile asciiSpace (rev (dropWhile asciiSpace s)))"

definition sample_rsa_key :: rsa_PrivateKey where
  "sample_rsa_key = \<lparr>rsa_N = 2 ^ 4095, rsa_E = 65537, rsa_D = 3\<rparr>"

definition sample_ec_key :: "Curve \<Rightarrow> nat \<Rightarrow> ecdsa_PrivateKey" where
  "sample_ec_key c d = \<lparr>ec_Curve = c, ec_X = d + 1, ec_Y = d + 2, ec_D = d\<rparr>"

definition sample_lib :: "CertificateRequest \<Rightarrow> nat stdlib" where
  "sample_lib csr =
     \<lparr>strings_TrimSpace = sample_TrimSpace,
      yaml_Unmarshal = (\<lambda>inp. if inp = [] then Inl ''EOF'' else Inr csr),
      net_ParseIP = (\<lambda>h. if h = ''10.1.0.1'' then Some [10, 1, 0, 1] else None),
      mail_ParseAddress =
        (\<lambda>h. if h = ''admin@example.com''
             then Some \<lparr>addr_Name = [], addr_Address = ''admin@example.com''\<rparr> else None),
      url_ParseRequestURI =
        (\<lambda>h. if h = ''https://example.com''
             then Some \<lparr>url_Scheme = ''https'', url_Host = ''example.com'', url_Path = []\<rparr>
             else None),
      rand_Int = (\<lambda>m w. (Inr (int w mod m), Suc w)),
      ecdsa_GenerateKey = (\<lambda>c w. (Inr (sample_ec_key c w), Suc w)),
      rsa_GenerateKey =
        (\<lambda>bits w. (Inr \<lparr>rsa_N = nat bits, rsa_E = 65537, rsa_D = w\<rparr>, Suc w)),
      x509_MarshalECPrivateKey = (\<lambda>k. Inr [48, of_nat (ec_D k)]),
      x509_MarshalPKCS1PrivateKey = (\<lambda>k. [48, of_nat (rsa_D k)]),
      pem_EncodeToMemory = (\<lambda>b. map (of_nat \<circ> of_char) (blk_Type b) @ blk_Bytes b),
      pem_Decode =
        (\<lambda>bs. if bs = [] then None else Some \<lparr>blk_Type = ''PRIVATE KEY'', blk_Bytes = bs\<rparr>),
      x509_ParsePKCS8PrivateKey =
        (\<lambda>der. if der = [1] then Inr (RSAPriv sample_rsa_key)
               else if der = [2] then Inr (ECDSAPriv (sample_ec_key P384 7))
               else if der = [3] then Inr OtherPrivateKey
               else Inl ''x509: failed to parse private key''),
      x509_ParsePKCS1PrivateKey = (\<lambda>der. Inl ''x509: failed to parse private key''),
      x509_ParseECPrivateKey = (\<lambda>der. Inl ''x509: failed to parse EC private key''),
      x509_ParseCertificate = (\<lambda>der. Inl ''x509: malformed certificate''),
      x509_CreateCertificate = (\<lambda>template parent pub priv w. (Inr [48, of_nat w], Suc w)),
      time_Now = (\<lambda>w. (\<lparr>unixNano = 1600000000000000000, location = Local_Location\<rparr>, w))\<rparr>"

definition sample_request :: CertificateRequest where
  "sample_request =
     \<lparr>csr_Algorithm = ''ecdsa'', csr_Size = 384, csr_CommonName = ''test.example.com'',
      csr_Names =
        [\<lparr>cn_C = ''CA'', cn_ST = ''QC'', cn_L = ''Montreal'', cn_O = ''test org'',
          cn_OU = ''test org unit'', cn_SerialNumber = []\<rparr>],
      csr_Hosts = [''10.1.0.1'', ''admin@example.com'', ''https://example.com'', ''example.com''],
      csr_SerialNumber = []\<rparr>"

definition blank_request :: CertificateRequest where
  "blank_request =
     \<lparr>csr_Algorithm = ''ecdsa'', csr_Size = 384, csr_CommonName = '' '',
      csr_Names =
        [\<lparr>cn_C = '' '', cn_ST = [], cn_L = [], cn_O = [], cn_OU = [], cn_SerialNumber = []\<rparr>],
      csr_Hosts = [], csr_SerialNumber = []\<rparr>"

definition common_name_request :: CertificateRequest where
  "common_name_request =
     \<lparr>csr_Algorithm = ''rsa'', csr_Size = 0, csr_CommonName = '' test.example.com '',
      csr_Names = [], csr_Hosts = [], csr_SerialNumber = []\<rparr>"

text \<open>
  What the sample library makes of \<open>sample_request\<close>, starting in world 0: the
  serial number is drawn first, the key second.
\<close>

definition sample_key :: Key where
  "sample_key =
     ecdsaKey
       \<lparr>algorithm = ECDSAKey, ksize = 384,
        encoded = map (of_nat \<circ> of_char) ''EC PRIVATE KEY'' @ [48, 1],
        privateKey = ECDSAPriv (sample_ec_key P384 1)\<rparr>"

definition sample_template ::
  "Duration \<Rightarrow> x509_KeyUsage \<Rightarrow> x509_ExtKeyUsage list \<Rightarrow> bool \<Rightarrow> Certificate" where
  "sample_template expires ku eku isCA =
     \<lparr>crt_Subject =
        \<lparr>Country = [''CA''], Organization = [''test org''],
         OrganizationalUnit = [''test org unit''], Locality = [],
         Province = [''Montreal''], SerialNumber = [], CommonName = ''test.example.com''\<rparr>,
      crt_PublicKey = ECDSAPub \<lparr>ec_Curve = P384, ec_X = 2, ec_Y = 3\<rparr>,
      crt_PublicKeyAlgorithm = x509_ECDSA,
      crt_SignatureAlgorithm = ECDSAWithSHA384,
      crt_IPAddresses = [[10, 1, 0, 1]],
      crt_EmailAddresses = [''admin@example.com''],
      crt_URIs = [\<lparr>url_Scheme = ''https'', url_Host = ''example.com'', url_Path = []\<rparr>],
      crt_DNSNames = [''example.com''],
      crt_SerialNumber = 0,
      crt_NotBefore = \<lparr>unixNano = 1599999700000000000, location = UTC_Location\<rparr>,
      crt_NotAfter = \<lparr>unixNano = 1600000000000000000 + expires, location = UTC_Location\<rparr>,
      crt_KeyUsage = ku,
      crt_ExtKeyUsage = eku,
      crt_BasicConstraintsValid = True,
      crt_IsCA = isCA\<rparr>"

section \<open>Key sizes\<close>

text \<open>
  Claim C5. \<open>ValidKeySize\<close> accepts for ECDSA exactly the sizes 0, 256, 384 and
  521, and for RSA exactly 0 and the sizes from 2048 to 8192; every other size
  gets the error of its algorithm. When \<open>ValidKeySize\<close> fails, \<open>GenerateKey\<close>
  fails with the same error whatever the library does, and leaves the world as
  it was: nothing has been generated and no randomness has been read.
\<close>

theorem ValidKeySize_exact:
  "(ValidKeySize ECDSAKey sz = Inr () \<longleftrightarrow> sz \<in> {0, 256, 384, 521}) \<and>
   (sz \<notin> {0, 256, 384, 521} \<longrightarrow> ValidKeySize ECDSAKey sz = Inl (Err (InvalidECDSAKeySize sz))) \<and>
   (ValidKeySize RSAKey sz = Inr () \<longleftrightarrow> sz = 0 \<or> (2048 \<le> sz \<and> sz \<le> 8192)) \<and>
   (\<not> (sz = 0 \<or> (2048 \<le> sz \<and> sz \<le> 8192)) \<longrightarrow>
      ValidKeySize RSAKey sz = Inl (Err (InvalidRSAKeySize sz 2048 8192))) \<and>
   (\<forall>a f. ValidKeySize a sz = Inl f \<longrightarrow> GenerateKey lib a sz w = (Inl f, w))"
  by (auto simp: ValidKeySize_def ECDSAKey_def RSAKey_def minRSAKeySize_def maxRSAKeySize_def
        GenerateKey_def)

theorem ValidKeySize_exact_witness:
  "ValidKeySize ECDSAKey 5 = Inl (Err (InvalidECDSAKeySize 5)) \<and>
   ValidKeySize ECDSAKey 333 = Inl (Err (InvalidECDSAKeySize 333)) \<and>
   ValidKeySize ECDSAKey 521 = Inr () \<and>
   ValidKeySize RSAKey 2047 = Inl (Err (InvalidRSAKeySize 2047 2048 8192)) \<and>
   ValidKeySize RSAKey 8193 = Inl (Err (InvalidRSAKeySize 8193 2048 8192)) \<and>
   ValidKeySize RSAKey 2048 = Inr () \<and>
   GenerateKey (sample_lib sample_request) RSAKey 8193 0
     = (Inl (Err (InvalidRSAKeySize 8193 2048 8192)), 0)"
proof -
  note t = ValidKeySize_exact [where lib = "sample_lib sample_request" and w = 0]
  show ?thesis
    using t [of 5] t [of 333] t [of 521] t [of 2047] t [of 8193] t [of 2048]
    by simp
qed



section \<open>Subject presence in a parsed request\<close>

lemma collectNames_filter:
  "collectNames lib ns acc = acc @ filter (\<lambda>n. \<not> Empty n) (map (trim lib) ns)"
  by (induction ns arbitrary: acc) (simp_all add: Let_def)

lemma trimHosts_map: "trimHosts lib hs = map (strings_TrimSpace lib) hs"
  by (induction hs) simp_all

text \<open>
  Claim C8. Once the YAML is decoded and the key algorithm and size are valid,
  \<open>ParseCertificateRequest\<close> fails exactly when the trimmed common name is
  empty and no name is left after trimming every name and dropping the empty
  ones; the error is then "no subject information provided". Otherwise it
  returns the request with the trimmed common name and serial number, the
  remaining names in order and the trimmed hosts. So a request whose common
  name trims to nothing and whose names are all empty fails, and a request
  with a non-empty trimmed common name parses.
\<close>

theorem ParseCertificateRequest_subject_presence:
  assumes "yaml_Unmarshal lib inp = Inr csr"
    and "validateKey (csr_Algorithm csr) (csr_Size csr) = Inr ()"
  shows "((\<exists>f. ParseCertificateRequest lib inp = Inl f) \<longleftrightarrow>
            strings_TrimSpace lib (csr_CommonName csr) = [] \<and>
            filter (\<lambda>n. \<not> Empty n) (map (trim lib) (csr_Names csr)) = []) \<and>
         (strings_TrimSpace lib (csr_CommonName csr) = [] \<and>
            filter (\<lambda>n. \<not> Empty n) (map (trim lib) (csr_Names csr)) = [] \<longrightarrow>
            ParseCertificateRequest lib inp = Inl (Err NoSubjectInformation)) \<and>
         (\<not> (strings_TrimSpace lib (csr_CommonName csr) = [] \<and>
             filter (\<lambda>n. \<not> Empty n) (map (trim lib) (csr_Names csr)) = []) \<longrightarrow>
            ParseCertificateRequest lib inp =
              Inr \<lparr>csr_Algorithm = csr_Algorithm csr, csr_Size = csr_Size csr,
                   csr_CommonName = strings_TrimSpace lib (csr_CommonName csr),
                   csr_Names = filter (\<lambda>n. \<not> Empty n) (map (trim lib) (csr_Names csr)),
                   csr_Hosts = map (strings_TrimSpace lib) (csr_Hosts csr),
                   csr_SerialNumber = strings_TrimSpace lib (csr_SerialNumber csr)\<rparr>) \<and>
         (strings_TrimSpace lib (csr_CommonName csr) = [] \<and>
            (\<forall>n \<in> set (csr_Names csr). Empty (trim lib n)) \<longrightarrow>
            ParseCertificateRequest lib inp = Inl (Err NoSubjectInformation)) \<and>
         (strings_TrimSpace lib (csr_CommonName csr) \<noteq> [] \<longrightarrow>
            (\<exists>r. ParseCertificateRequest lib inp = Inr r \<and>
                 csr_CommonName r = strings_TrimSpace lib (csr_CommonName csr)))"
proof -
  let ?cn = "strings_TrimSpace lib (csr_CommonName csr)"
  let ?ns = "filter (\<lambda>n. \<not> Empty n) (map (trim lib) (csr_Names csr))"
  have run: "ParseCertificateRequest lib inp =
      (if ?cn = [] \<and> ?ns = [] then Inl (Err NoSubjectInformation)
       else Inr \<lparr>csr_Algorithm = csr_Algorithm csr, csr_Size = csr_Size csr,
                   csr_CommonName = ?cn, csr_Names = ?ns,
                   csr_Hosts = map (strings_TrimSpace lib) (csr_Hosts csr),
                   csr_SerialNumber = strings_TrimSpace lib (csr_SerialNumber csr)\<rparr>)"
    using assms
    by (cases csr) (simp add: ParseCertificateRequest_def Let_def collectNames_filter trimHosts_map)
  have all_empty: "?ns = []" if "\<forall>n \<in> set (csr_Names csr). Empty (trim lib n)"
    using that by (simp add: filter_empty_conv)
  show ?thesis
    unfolding run using all_empty by auto
qed

lemma sample_TrimSpace_blank: "sample_TrimSpace '' '' = []"
  by (simp add: sample_TrimSpace_def asciiSpace_def)

lemma sample_TrimSpace_empty: "sample_TrimSpace [] = []"
  by (simp add: sample_TrimSpace_def asciiSpace_def)

lemma sample_TrimSpace_cn: "sample_TrimSpace '' test.example.com '' = ''test.example.com''"
  by (simp add: sample_TrimSpace_def asciiSpace_def)

theorem ParseCertificateRequest_subject_presence_witness:
  "ParseCertificateRequest (sample_lib blank_request) [1] = Inl (Err NoSubjectInformation) \<and>
   ParseCertificateRequest (sample_lib common_name_request) [1] =
     Inr \<lparr>csr_Algorithm = ''rsa'', csr_Size = 0, csr_CommonName = ''test.example.com'',
          csr_Names = [], csr_Hosts = [], csr_SerialNumber = []\<rparr>"
proof -
  have y1: "yaml_Unmarshal (sample_lib blank_request) [1] = Inr blank_request"
    and y2: "yaml_Unmarshal (sample_lib common_name_request) [1] = Inr common_name_request"
    by (simp_all add: sample_lib_def)
  have v1: "validateKey (csr_Algorithm blank_request) (csr_Size blank_request) = Inr ()"
    and v2: "validateKey (csr_Algorithm common_name_request) (csr_Size common_name_request) = Inr ()"
    by (simp_all add: validateKey_def ParseKeyAlgorithm_def ValidKeySize_def blank_request_def
        common_name_request_def ECDSAKey_def RSAKey_def)
  have t: "strings_TrimSpace (sample_lib c) = sample_TrimSpace" for c
    by (simp add: sample_lib_def)
  show ?thesis
    using ParseCertificateRequest_subject_presence [OF y1 v1]
      ParseCertificateRequest_subject_presence [OF y2 v2]
    by (simp add: t blank_request_def common_name_request_def trim_def Empty_def
        sample_TrimSpace_blank sample_TrimSpace_empty sample_TrimSpace_cn)
qed

section \<open>The subject built from a request\<close>

lemma subject_step_Locality: "Locality (subject_step s n) = Locality s"
  by (simp add: subject_step_def Let_def)

lemma subject_loop_Locality: "Locality (subject_loop s ns) = Locality s"
  by (induction ns arbitrary: s) (simp_all add: subject_step_Locality)

lemma subject_loop_Country:
  "Country (subject_loop s ns) = Country s @ filter (\<lambda>x. x \<noteq> []) (map cn_C ns)"
  by (induction ns arbitrary: s) (simp_all add: subject_step_def Let_def)

lemma subject_loop_Organization:
  "Organization (subject_loop s ns) = Organization s @ filter (\<lambda>x. x \<noteq> []) (map cn_O ns)"
  by (induction ns arbitrary: s) (simp_all add: subject_step_def Let_def)

lemma subject_loop_OrganizationalUnit:
  "OrganizationalUnit (subject_loop s ns) =
     OrganizationalUnit s @ filter (\<lambda>x. x \<noteq> []) (map cn_OU ns)"
  by (induction ns arbitrary: s) (simp_all add: subject_step_def Let_def)

lemma subject_loop_CommonName: "CommonName (subject_loop s ns) = CommonName s"
  by (induction ns arbitrary: s) (simp_all add: subject_step_def Let_def)

lemma sample_subject:
  "subject sample_request =
     \<lparr>Country = [''CA''], Organization = [''test org''],
      OrganizationalUnit = [''test org unit''], Locality = [],
      Province = [''Montreal''], SerialNumber = [], CommonName = ''test.example.com''\<rparr>"
  by (simp add: subject_def sample_request_def subject_step_def empty_Name_def Let_def)

text \<open>
  Claim C1. The code does not build the union the claim describes. The country,
  organization and organizational-unit lists, the common name and the serial
  number are as claimed. But a non-empty \<open>L\<close> is appended to the (always empty)
  locality list and the result is stored as the province list: the locality of
  the subject is empty for every request, and for the request of the package's
  test (C=CA, ST=QC, L=Montreal) the province list is \<open>[Montreal]\<close>, without QC.
\<close>

theorem subject_locality_lost:
  "Country (subject csr) = filter (\<lambda>x. x \<noteq> []) (map cn_C (csr_Names csr)) \<and>
   Organization (subject csr) = filter (\<lambda>x. x \<noteq> []) (map cn_O (csr_Names csr)) \<and>
   OrganizationalUnit (subject csr) = filter (\<lambda>x. x \<noteq> []) (map cn_OU (csr_Names csr)) \<and>
   CommonName (subject csr) = csr_CommonName csr \<and>
   SerialNumber (subject csr) = csr_SerialNumber csr \<and>
   Locality (subject csr) = [] \<and>
   cn_ST (hd (csr_Names sample_request)) = ''QC'' \<and>
   cn_L (hd (csr_Names sample_request)) = ''Montreal'' \<and>
   Province (subject sample_request) = [''Montreal''] \<and>
   Locality (subject sample_request) = []"
proof -
  have general: "Country (subject csr) = filter (\<lambda>x. x \<noteq> []) (map cn_C (csr_Names csr))"
    "Organization (subject csr) = filter (\<lambda>x. x \<noteq> []) (map cn_O (csr_Names csr))"
    "OrganizationalUnit (subject csr) = filter (\<lambda>x. x \<noteq> []) (map cn_OU (csr_Names csr))"
    "CommonName (subject csr) = csr_CommonName csr"
    "SerialNumber (subject csr) = csr_SerialNumber csr"
    "Locality (subject csr) = []"
    by (simp_all add: subject_def Let_def empty_Name_def subject_loop_Country
        subject_loop_Organization subject_loop_OrganizationalUnit subject_loop_CommonName
        subject_loop_Locality)
  have test: "cn_ST (hd (csr_Names sample_request)) = ''QC''"
    "cn_L (hd (csr_Names sample_request)) = ''Montreal''"
    "Province (subject sample_request) = [''Montreal'']"
    "Locality (subject sample_request) = []"
    by (simp_all add: sample_subject) (simp_all add: sample_request_def)
  from general test show ?thesis by simp
qed

section \<open>Host classification\<close>








section \<open>Certificate templates\<close>

lemma Seconds_eq: "Seconds d = real_of_int d / 1000000000"
proof -
  have "d sdiv Second * Second + d smod Second = d"
    by (rule sdiv_mult_smod_eq)
  then have "real_of_int (d sdiv Second) * real_of_int Second + real_of_int (d smod Second)
      = real_of_int d"
    by (metis of_int_add of_int_mult)
  moreover have "real_of_int Second = 1000000000"
    by (simp add: Second_def Millisecond_def Microsecond_def Nanosecond_def)
  ultimately show ?thesis
    by (simp add: Seconds_def field_simps)
qed

lemma Seconds_zero_iff: "Seconds d = 0 \<longleftrightarrow> d = 0"
  by (simp add: Seconds_eq)

lemma generateCertificateTemplate_Inr:
  assumes "generateCertificateTemplate lib csrData d usage isCA w = (Inr (t, k), w3)"
  shows "\<exists>csr n w1 w2 now.
      ParseCertificateRequest lib csrData = Inr csr \<and>
      rand_Int lib MaxInt64 w = (Inr n, w1) \<and>
      generateKey lib csr w1 = (Inr k, w2) \<and>
      sortUsages usage \<noteq> (0, []) \<and>
      time_Now lib w2 = (now, w3) \<and>
      buildTemplate csr k (parseHosts lib csr) n now
        (if d = 0 then DefaultCertificateExpiration else d)
        (fst (sortUsages usage)) (snd (sortUsages usage)) isCA = Inr t"
  using assms
  by (auto simp: generateCertificateTemplate_def Let_def Seconds_zero_iff
      split: sum.splits prod.splits if_splits)

lemma buildTemplate_Inr:
  assumes "buildTemplate csr k hosts n now ex ku eku isCA = Inr t"
  shows "\<exists>pub sig. PublicKey k = Inr pub \<and> SignatureAlgorithm k = Inr sig \<and>
     t = \<lparr>crt_Subject = subject csr, crt_PublicKey = pub,
          crt_PublicKeyAlgorithm = PublicKeyAlgorithm k, crt_SignatureAlgorithm = sig,
          crt_IPAddresses = IPAddresses hosts, crt_EmailAddresses = EmailAddresses hosts,
          crt_URIs = URIs hosts, crt_DNSNames = DNSNames hosts, crt_SerialNumber = n,
          crt_NotBefore = Time_UTC (Time_Add now (- 5 * Minute)),
          crt_NotAfter = Time_UTC (Time_Add now ex),
          crt_KeyUsage = ku, crt_ExtKeyUsage = eku,
          crt_BasicConstraintsValid = True, crt_IsCA = isCA\<rparr>"
  using assms by (auto simp: buildTemplate_def split: sum.splits)

lemma sample_TrimSpace_fixed:
  "sample_TrimSpace [] = []"
  "sample_TrimSpace ''test.example.com'' = ''test.example.com''"
  "sample_TrimSpace ''CA'' = ''CA''"
  "sample_TrimSpace ''QC'' = ''QC''"
  "sample_TrimSpace ''Montreal'' = ''Montreal''"
  "sample_TrimSpace ''test org'' = ''test org''"
  "sample_TrimSpace ''test org unit'' = ''test org unit''"
  "sample_TrimSpace ''10.1.0.1'' = ''10.1.0.1''"
  "sample_TrimSpace ''admin@example.com'' = ''admin@example.com''"
  "sample_TrimSpace ''https://example.com'' = ''https://example.com''"
  "sample_TrimSpace ''example.com'' = ''example.com''"
  by (simp_all add: sample_TrimSpace_def asciiSpace_def)

lemma sample_parse: "ParseCertificateRequest (sample_lib sample_request) [1] = Inr sample_request"
  by (simp add: ParseCertificateRequest_def sample_lib_def sample_request_def validateKey_def
      ParseKeyAlgorithm_def ValidKeySize_def ECDSAKey_def RSAKey_def Let_def trim_def Empty_def
      sample_TrimSpace_fixed)

lemma sample_generateKey:
  "generateKey (sample_lib c) sample_request (Suc 0) = (Inr sample_key, Suc (Suc 0))"
  by (simp add: generateKey_def GenerateKey_def generateECDSAKey_def ParseKeyAlgorithm_def
      ValidKeySize_def sample_request_def sample_lib_def sample_key_def sample_ec_key_def
      ECDSAKey_def RSAKey_def)

lemma sample_hosts:
  "parseHosts (sample_lib c) sample_request =
     \<lparr>DNSNames = [''example.com''], EmailAddresses = [''admin@example.com''],
      IPAddresses = [[10, 1, 0, 1]],
      URIs = [\<lparr>url_Scheme = ''https'', url_Host = ''example.com'', url_Path = []\<rparr>]\<rparr>"
  by (simp add: parseHosts_def parseHosts_step_def sample_lib_def sample_request_def)

lemma sample_buildTemplate:
  "buildTemplate sample_request sample_key (parseHosts (sample_lib c) sample_request) 0
     \<lparr>unixNano = 1600000000000000000, location = Local_Location\<rparr> ex ku eku isCA
   = Inr (sample_template ex ku eku isCA)"
  by (simp add: buildTemplate_def sample_hosts sample_subject sample_key_def PublicKey_def
      sample_ec_key_def ecdsa_PublicKey.truncate_def sample_template_def Time_UTC_def Time_Add_def
      Minute_def Second_def Millisecond_def Microsecond_def Nanosecond_def)

lemma sample_run:
  "generateCertificateTemplate (sample_lib sample_request) [1] d usage isCA 0 =
     (if sortUsages usage = (0, []) then (Inl (Err NoKeyUsage), 2)
      else (Inr (sample_template (if d = 0 then DefaultCertificateExpiration else d)
                   (fst (sortUsages usage)) (snd (sortUsages usage)) isCA, sample_key), 2))"
proof -
  have r: "rand_Int (sample_lib sample_request) MaxInt64 0 = (Inr 0, Suc 0)"
    by (simp add: sample_lib_def MaxInt64_def)
  have n: "time_Now (sample_lib sample_request) w =
      (\<lparr>unixNano = 1600000000000000000, location = Local_Location\<rparr>, w)" for w
    by (simp add: sample_lib_def)
  show ?thesis
    by (cases "sortUsages usage")
      (simp add: generateCertificateTemplate_def sample_parse r sample_generateKey n
        sample_buildTemplate Seconds_zero_iff Let_def)
qed

lemma sortUsages_server_auth: "sortUsages [''server auth''] = (0, [ExtKeyUsageServerAuth])"
  by (simp add: sortUsages_def keyUsage_def extKeyUsage_def)

text \<open>
  Claim C4. A template built at the time \<open>now\<close> that \<open>time.Now\<close> returned, with
  the expiration \<open>d\<close>, is valid from \<open>now\<close> minus 5 minutes to \<open>now\<close> plus \<open>d\<close>,
  both in UTC; a \<open>d\<close> of zero stands for \<open>DefaultCertificateExpiration\<close>, which
  is 10 times 8760 hours.
\<close>

theorem template_validity_window:
  assumes "generateCertificateTemplate lib csrData d usage isCA w = (Inr (t, k), w')"
  shows "\<exists>now w2. time_Now lib w2 = (now, w') \<and>
     unixNano (crt_NotBefore t) = unixNano now - 5 * 60 * 1000000000 \<and>
     location (crt_NotBefore t) = UTC_Location \<and>
     unixNano (crt_NotAfter t) =
       unixNano now + (if d = 0 then 10 * 8760 * 3600 * 1000000000 else d) \<and>
     location (crt_NotAfter t) = UTC_Location \<and>
     crt_NotBefore t = Time_UTC (Time_Add now (- 5 * Minute)) \<and>
     crt_NotAfter t = Time_UTC (Time_Add now (if d = 0 then DefaultCertificateExpiration else d))"
proof -
  from generateCertificateTemplate_Inr [OF assms] obtain csr n w2 now where
    now: "time_Now lib w2 = (now, w')" and
    b: "buildTemplate csr k (parseHosts lib csr) n now
        (if d = 0 then DefaultCertificateExpiration else d)
        (fst (sortUsages usage)) (snd (sortUsages usage)) isCA = Inr t"
    by blast
  from buildTemplate_Inr [OF b] have
    nb: "crt_NotBefore t = Time_UTC (Time_Add now (- 5 * Minute))" and
    na: "crt_NotAfter t = Time_UTC (Time_Add now (if d = 0 then DefaultCertificateExpiration else d))"
    by auto
  have dur: "Minute = 60 * 1000000000" "DefaultCertificateExpiration = 10 * 8760 * 3600 * 1000000000"
    by (simp_all add: DefaultCertificateExpiration_def Hour_def Minute_def Second_def
        Millisecond_def Microsecond_def Nanosecond_def)
  show ?thesis
    using now nb na by (auto simp: Time_UTC_def Time_Add_def dur)
qed

theorem template_validity_window_witness:
  "generateCertificateTemplate (sample_lib sample_request) [1] 0 [''server auth''] False 0 =
     (Inr (sample_template DefaultCertificateExpiration 0 [ExtKeyUsageServerAuth] False,
           sample_key), 2) \<and>
   crt_NotBefore (sample_template DefaultCertificateExpiration 0 [ExtKeyUsageServerAuth] False) =
     \<lparr>unixNano = 1599999700000000000, location = UTC_Location\<rparr> \<and>
   crt_NotAfter (sample_template DefaultCertificateExpiration 0 [ExtKeyUsageServerAuth] False) =
     \<lparr>unixNano = 1915360000000000000, location = UTC_Location\<rparr>"
proof -
  have run: "generateCertificateTemplate (sample_lib sample_request) [1] 0 [''server auth''] False 0 =
     (Inr (sample_template DefaultCertificateExpiration 0 [ExtKeyUsageServerAuth] False,
           sample_key), 2)"
    by (simp add: sample_run sortUsages_server_auth)
  have d: "DefaultCertificateExpiration = 315360000000000000"
    by (simp add: DefaultCertificateExpiration_def Hour_def Minute_def Second_def
        Millisecond_def Microsecond_def Nanosecond_def)
  from template_validity_window [OF run] show ?thesis
    using run by (simp add: sample_template_def d)
qed

section \<open>Usages\<close>

lemma usage_tables_disjoint: "keyUsage u = Some b \<Longrightarrow> extKeyUsage u = None"
  by (auto simp: keyUsage_def extKeyUsage_def split: if_splits)

lemma sortUsages_loop_bits:
  "bit (fst (sortUsages_loop (ku, eku) us)) n \<longleftrightarrow>
     bit ku n \<or> (\<exists>u \<in> set us. \<exists>b. keyUsage u = Some b \<and> bit b n)"
  by (induction us arbitrary: ku eku) (auto simp: bit_or_iff split: option.splits)

lemma sortUsages_loop_ext:
  "snd (sortUsages_loop (ku, eku) us) =
     eku @ map (the \<circ> extKeyUsage) (filter (\<lambda>u. extKeyUsage u \<noteq> None) us)"
  by (induction us arbitrary: ku eku) (auto simp: usage_tables_disjoint split: option.splits)

lemma sortUsages_loop_recognized:
  "sortUsages_loop acc (filter (\<lambda>u. keyUsage u \<noteq> None \<or> extKeyUsage u \<noteq> None) us) =
     sortUsages_loop acc us"
  by (induction us arbitrary: acc) (auto split: option.splits)

lemma ParseCertificateRequest_not_NoKeyUsage:
  "ParseCertificateRequest lib inp \<noteq> Inl (Err NoKeyUsage)"
  by (auto simp: ParseCertificateRequest_def validateKey_def ParseKeyAlgorithm_def
      ValidKeySize_def Let_def split: sum.splits if_splits)

lemma ValidKeySize_not_NoKeyUsage: "ValidKeySize a sz \<noteq> Inl (Err NoKeyUsage)"
  by (simp add: ValidKeySize_def)

lemma generateECDSAKey_not_NoKeyUsage:
  "fst (generateECDSAKey lib sz w) \<noteq> Inl (Err NoKeyUsage)"
  by (simp add: generateECDSAKey_def DefaultSize_def
      split: sum.splits prod.splits option.splits)

lemma generateRSAKey_not_NoKeyUsage:
  "fst (generateRSAKey lib sz w) \<noteq> Inl (Err NoKeyUsage)"
  by (simp add: generateRSAKey_def DefaultSize_def split: sum.splits prod.splits)

lemma GenerateKey_not_NoKeyUsage:
  "fst (GenerateKey lib a sz w) \<noteq> Inl (Err NoKeyUsage)"
proof (cases "ValidKeySize a sz")
  case (Inl f)
  then show ?thesis
    using ValidKeySize_not_NoKeyUsage [of a sz] by (simp add: GenerateKey_def)
next
  case (Inr u)
  then show ?thesis
    by (simp add: GenerateKey_def generateECDSAKey_not_NoKeyUsage generateRSAKey_not_NoKeyUsage)
qed

lemma generateKey_not_NoKeyUsage:
  "fst (generateKey lib csr w) \<noteq> Inl (Err NoKeyUsage)"
proof (cases "ParseKeyAlgorithm (csr_Algorithm csr)")
  case (Inl f)
  then show ?thesis
    by (auto simp: generateKey_def ParseKeyAlgorithm_def split: if_splits)
next
  case (Inr a)
  then show ?thesis
    by (simp add: generateKey_def GenerateKey_not_NoKeyUsage)
qed

lemma buildTemplate_not_Err: "buildTemplate csr k hosts n now ex ku eku isCA \<noteq> Inl (Err e)"
  by (cases k) (auto simp: buildTemplate_def PublicKey_def
      split: sum.splits PrivateKey_any.splits if_splits)

lemma template_NoKeyUsage_iff:
  "fst (generateCertificateTemplate lib csrData d usage isCA w) = Inl (Err NoKeyUsage) \<longleftrightarrow>
     (\<exists>csr n w1 k w2. ParseCertificateRequest lib csrData = Inr csr \<and>
        rand_Int lib MaxInt64 w = (Inr n, w1) \<and> generateKey lib csr w1 = (Inr k, w2)) \<and>
     sortUsages usage = (0, [])"
proof (cases "ParseCertificateRequest lib csrData")
  case (Inl f)
  then show ?thesis
    using ParseCertificateRequest_not_NoKeyUsage [of lib csrData]
    by (simp add: generateCertificateTemplate_def)
next
  case (Inr csr)
  obtain rn w1 where r: "rand_Int lib MaxInt64 w = (rn, w1)" by force
  show ?thesis
  proof (cases rn)
    case (Inl e)
    then show ?thesis using Inr r by (simp add: generateCertificateTemplate_def Let_def)
  next
    case rInr: (Inr n)
    obtain rk w2 where g: "generateKey lib csr w1 = (rk, w2)" by force
    show ?thesis
    proof (cases rk)
      case (Inl f)
      then show ?thesis
        using Inr r rInr g generateKey_not_NoKeyUsage [of lib csr w1]
        by (simp add: generateCertificateTemplate_def Let_def)
    next
      case kInr: (Inr k)
      obtain ku eku where s: "sortUsages usage = (ku, eku)" by force
      obtain now w3 where t: "time_Now lib w2 = (now, w3)" by force
      show ?thesis
        using Inr r rInr g kInr s t
          buildTemplate_not_Err [of csr k "parseHosts lib csr" n now _ ku eku isCA NoKeyUsage]
        by (auto simp: generateCertificateTemplate_def Let_def split: sum.splits)
    qed
  qed
qed

lemma template_fails_without_usage:
  assumes "sortUsages usage = (0, [])"
  shows "\<exists>f. fst (generateCertificateTemplate lib csrData d usage isCA w) = Inl f"
  using assms
  by (auto simp: generateCertificateTemplate_def Let_def split: sum.splits prod.splits)

text \<open>
  Claim C6. \<open>sortUsages\<close> gives the same result with the unrecognized names
  left out; a bit of the key usage is set exactly when a name of the list has
  it in the key-usage table; the extended key usages are those of the names of
  the extended table, in the order and as often as they occur, and "s/mime"
  stands for email protection. When the list resolves to no key-usage bit and
  no extended key usage, no template is built; and the error "no key usage(s)
  specified" is returned exactly when the request parsed, the serial number was
  drawn, the key was generated and the list resolves to nothing.
\<close>

theorem sortUsages_and_usage_check:
  "sortUsages (filter (\<lambda>u. keyUsage u \<noteq> None \<or> extKeyUsage u \<noteq> None) usage) = sortUsages usage \<and>
   (\<forall>n. bit (fst (sortUsages usage)) n \<longleftrightarrow>
      (\<exists>u \<in> set usage. \<exists>b. keyUsage u = Some b \<and> bit b n)) \<and>
   snd (sortUsages usage) =
     map (the \<circ> extKeyUsage) (filter (\<lambda>u. extKeyUsage u \<noteq> None) usage) \<and>
   extKeyUsage ''s/mime'' = Some ExtKeyUsageEmailProtection \<and>
   (sortUsages usage = (0, []) \<longrightarrow>
      (\<exists>f. fst (generateCertificateTemplate lib csrData d usage isCA w) = Inl f)) \<and>
   (fst (generateCertificateTemplate lib csrData d usage isCA w) = Inl (Err NoKeyUsage) \<longleftrightarrow>
     (\<exists>csr n w1 k w2. ParseCertificateRequest lib csrData = Inr csr \<and>
        rand_Int lib MaxInt64 w = (Inr n, w1) \<and> generateKey lib csr w1 = (Inr k, w2)) \<and>
     sortUsages usage = (0, []))"
proof -
  have bits: "\<forall>n. bit (fst (sortUsages usage)) n \<longleftrightarrow>
      (\<exists>u \<in> set usage. \<exists>b. keyUsage u = Some b \<and> bit b n)"
    by (simp add: sortUsages_def sortUsages_loop_bits)
  have ext: "snd (sortUsages usage) =
     map (the \<circ> extKeyUsage) (filter (\<lambda>u. extKeyUsage u \<noteq> None) usage)"
    by (simp add: sortUsages_def sortUsages_loop_ext)
  have rec: "sortUsages (filter (\<lambda>u. keyUsage u \<noteq> None \<or> extKeyUsage u \<noteq> None) usage)
      = sortUsages usage"
    by (simp only: sortUsages_def sortUsages_loop_recognized)
  have smime: "extKeyUsage ''s/mime'' = Some ExtKeyUsageEmailProtection"
    by (simp add: extKeyUsage_def)
  show ?thesis
    using bits ext rec smime template_fails_without_usage [of usage lib csrData d isCA w]
      template_NoKeyUsage_iff [of lib csrData d usage isCA w]
    by blast
qed

theorem sortUsages_and_usage_check_witness:
  "sortUsages [''frobnicate'', ''cert sign'', ''s/mime'', ''crl sign'', ''s/mime''] =
     (96, [ExtKeyUsageEmailProtection, ExtKeyUsageEmailProtection]) \<and>
   sortUsages [''cert sign'', ''s/mime'', ''crl sign'', ''s/mime''] =
     (96, [ExtKeyUsageEmailProtection, ExtKeyUsageEmailProtection]) \<and>
   sortUsages [''frobnicate''] = (0, []) \<and>
   fst (generateCertificateTemplate (sample_lib sample_request) [1] 0 [''frobnicate''] False 0)
     = Inl (Err NoKeyUsage)"
proof -
  have known: "keyUsage ''frobnicate'' = None" "extKeyUsage ''frobnicate'' = None"
    by (simp_all add: keyUsage_def extKeyUsage_def)
  have kept: "filter (\<lambda>u. keyUsage u \<noteq> None \<or> extKeyUsage u \<noteq> None)
      [''frobnicate'', ''cert sign'', ''s/mime'', ''crl sign'', ''s/mime'']
    = [''cert sign'', ''s/mime'', ''crl sign'', ''s/mime'']"
    by (simp add: keyUsage_def extKeyUsage_def)
  have s1: "sortUsages [''cert sign'', ''s/mime'', ''crl sign'', ''s/mime''] =
     (96, [ExtKeyUsageEmailProtection, ExtKeyUsageEmailProtection])"
    by (simp add: sortUsages_def keyUsage_def extKeyUsage_def KeyUsageCertSign_def
        KeyUsageCRLSign_def)
  have s0: "sortUsages [''frobnicate''] = (0, [])"
    by (simp add: sortUsages_def known)
  have r: "rand_Int (sample_lib sample_request) MaxInt64 0 = (Inr 0, Suc 0)"
    by (simp add: sample_lib_def MaxInt64_def)
  have pre: "\<exists>csr n w1 k w2.
      ParseCertificateRequest (sample_lib sample_request) [1] = Inr csr \<and>
      rand_Int (sample_lib sample_request) MaxInt64 0 = (Inr n, w1) \<and>
      generateKey (sample_lib sample_request) csr w1 = (Inr k, w2)"
    using sample_parse r sample_generateKey by blast
  note t1 = sortUsages_and_usage_check
    [of "[''frobnicate'', ''cert sign'', ''s/mime'', ''crl sign'', ''s/mime'']"]
  note t2 = sortUsages_and_usage_check
    [of "[''frobnicate'']" "sample_lib sample_request" "[1]" 0 False 0]
  have a: "sortUsages [''frobnicate'', ''cert sign'', ''s/mime'', ''crl sign'', ''s/mime''] =
     (96, [ExtKeyUsageEmailProtection, ExtKeyUsageEmailProtection])"
    using t1 [THEN conjunct1] unfolding kept s1 by simp
  have b: "fst (generateCertificateTemplate (sample_lib sample_request) [1] 0 [''frobnicate''] False 0)
     = Inl (Err NoKeyUsage)"
    using t2 pre s0 by blast
  from a s1 s0 b show ?thesis by simp
qed

section \<open>Self-signed certificate authorities\<close>





section \<open>Loading a private key\<close>

lemma parsePrivateKey_undecodable_structure:
  assumes "pem_Decode lib keyPEM = Some p"
    and "x509_ParsePKCS8PrivateKey lib (blk_Bytes p) = Inl e1"
    and "x509_ParsePKCS1PrivateKey lib (blk_Bytes p) = Inl e2"
    and "x509_ParseECPrivateKey lib (blk_Bytes p) = Inl e3"
  shows "parsePrivateKey lib keyPEM = Inl (Err CannotParsePrivateKey)"
  using assms by (simp add: parsePrivateKey_def parseKeyDER_def)

lemma BitLen_pow2: "BitLen (2 ^ n) = Suc n"
proof (induction n)
  case 0
  show ?case by (simp add: BitLen.simps [of "Suc 0"] BitLen.simps [of 0])
next
  case (Suc n)
  have "BitLen (2 ^ Suc n) = Suc (BitLen (2 ^ Suc n div 2))"
    by (subst BitLen.simps) simp
  also have "2 ^ Suc n div 2 = (2::nat) ^ n" by simp
  finally show ?case using Suc.IH by simp
qed

lemma parsePrivateKey_ecdsa_size:
  assumes "parsePrivateKey lib keyPEM = Inr k" and "PrivateKey k = ECDSAPriv priv"
  shows "Size k = (if ec_Curve priv = P256 then 256 else if ec_Curve priv = P384 then 384
                   else if ec_Curve priv = P521 then 521 else 256)"
  using assms
  by (auto simp: parsePrivateKey_def getCurveSize_def DefaultSize_def Size_def PrivateKey_def
      split: option.splits sum.splits PrivateKey_any.splits if_splits)

text \<open>
  Claim C3. For an ECDSA key the size is the one of the curve, 256 for a curve
  that is none of the three (lemma \<open>parsePrivateKey_ecdsa_size\<close>). For an RSA
  key the code stores \<open>priv.Size()\<close>, the length of the modulus in bytes: a
  key with a modulus of 4096 bits, in PKCS#8 or in PKCS#1 encoding, is loaded
  with \<open>Size\<close> 512, not 4096, and \<open>SignatureAlgorithm\<close> panics on the loaded
  key.
\<close>

theorem parsePrivateKey_rsa_size_in_bytes:
  assumes "pem_Decode lib keyPEM = Some p"
    and "x509_ParsePKCS8PrivateKey lib (blk_Bytes p) = Inr (RSAPriv priv) \<or>
         (\<exists>e. x509_ParsePKCS8PrivateKey lib (blk_Bytes p) = Inl e) \<and>
         x509_ParsePKCS1PrivateKey lib (blk_Bytes p) = Inr priv"
    and "BitLen (rsa_N priv) = 4096"
  shows "\<exists>k. parsePrivateKey lib keyPEM = Inr k \<and> Algorithm k = RSAKey \<and>
           PrivateKey k = RSAPriv priv \<and> Size k = 512 \<and>
           SignatureAlgorithm k = Inl (Panic (LogPanic ''unexpected key size''))"
proof -
  from assms(2) have der: "parseKeyDER lib (blk_Bytes p) = Inr (RSAPriv priv)"
    by (auto simp: parseKeyDER_def)
  have sz: "rsa_Size priv = 512"
    using assms(3) by (simp add: rsa_Size_def)
  show ?thesis
    by (simp add: parsePrivateKey_def assms(1) der sz Size_def Algorithm_def PrivateKey_def)
qed

theorem parsePrivateKey_rsa_size_in_bytes_witness:
  "parsePrivateKey (sample_lib sample_request) [1] =
     Inr (rsaKey \<lparr>algorithm = RSAKey, ksize = 512, encoded = [1],
                  privateKey = RSAPriv sample_rsa_key\<rparr>) \<and>
   Size (rsaKey \<lparr>algorithm = RSAKey, ksize = 512, encoded = [1],
                  privateKey = RSAPriv sample_rsa_key\<rparr>) = 512 \<and>
   SignatureAlgorithm (rsaKey \<lparr>algorithm = RSAKey, ksize = 512, encoded = [1],
                  privateKey = RSAPriv sample_rsa_key\<rparr>)
     = Inl (Panic (LogPanic ''unexpected key size''))"
proof -
  have d: "pem_Decode (sample_lib sample_request) [1] =
      Some \<lparr>blk_Type = ''PRIVATE KEY'', blk_Bytes = [1]\<rparr>"
    by (simp add: sample_lib_def)
  have p: "x509_ParsePKCS8PrivateKey (sample_lib sample_request)
      (blk_Bytes \<lparr>blk_Type = ''PRIVATE KEY'', blk_Bytes = [1]\<rparr>) = Inr (RSAPriv sample_rsa_key)"
    by (simp add: sample_lib_def)
  have b: "BitLen (rsa_N sample_rsa_key) = 4096"
    by (simp add: sample_rsa_key_def BitLen_pow2 del: power_numeral)
  have run: "parsePrivateKey (sample_lib sample_request) [1] =
     Inr (rsaKey \<lparr>algorithm = RSAKey, ksize = 512, encoded = [1],
                  privateKey = RSAPriv sample_rsa_key\<rparr>)"
    using p by (simp add: parsePrivateKey_def d parseKeyDER_def rsa_Size_def b)
  from parsePrivateKey_rsa_size_in_bytes [OF d disjI1 [OF p] b] show ?thesis
    using run by simp
qed

text \<open>
  Claim C2. When the three parsers reject the bytes of a decoded PEM block,
  \<open>parsePrivateKey\<close> returns the error "cannot parse private key" (lemma
  \<open>parsePrivateKey_undecodable_structure\<close>). But when \<open>pem.Decode\<close> finds no
  block and returns nil, \<open>parsePrivateKey\<close> reads \<open>p.Bytes\<close> through the nil
  pointer and panics, and so does \<open>Generate\<close>, for the CA certificate and for
  the CA key, after it has built the template.
\<close>

theorem PEM_without_block_panics:
  "(pem_Decode lib keyPEM = None \<longrightarrow> parsePrivateKey lib keyPEM = Inl (Panic NilDereference)) \<and>
   (generateCertificateTemplate lib csrData expires usage False w = (Inr (t, k), w1) \<and>
    pem_Decode lib ca = None \<longrightarrow>
      Generate lib csrData ca caKey expires usage w = (Inl (Panic NilDereference), w1)) \<and>
   (generateCertificateTemplate lib csrData expires usage False w = (Inr (t, k), w1) \<and>
    pem_Decode lib ca = Some p \<and> x509_ParseCertificate lib (blk_Bytes p) = Inr caCert \<and>
    pem_Decode lib caKey = None \<longrightarrow>
      Generate lib csrData ca caKey expires usage w = (Inl (Panic NilDereference), w1))"
  by (simp add: parsePrivateKey_def Generate_def)

theorem PEM_without_block_panics_witness:
  "parsePrivateKey (sample_lib sample_request) [] = Inl (Panic NilDereference) \<and>
   Generate (sample_lib sample_request) [1] [] [1] 0 [''server auth''] 0
     = (Inl (Panic NilDereference), 2)"
proof -
  have d: "pem_Decode (sample_lib sample_request) [] = None"
    by (simp add: sample_lib_def)
  have run: "generateCertificateTemplate (sample_lib sample_request) [1] 0 [''server auth''] False 0 =
     (Inr (sample_template DefaultCertificateExpiration 0 [ExtKeyUsageServerAuth] False,
           sample_key), 2)"
    by (simp add: sample_run sortUsages_server_auth)
  show ?thesis
    using PEM_without_block_panics [of "sample_lib sample_request" "[]" "[1]" 0
        "[''server auth'']" 0
        "sample_template DefaultCertificateExpiration 0 [ExtKeyUsageServerAuth] False"
        sample_key 2 "[]" "[1]"] d run
    by simp
qed

end
